theory Spec2Isabelle
  imports Complex_Main
begin

section \<open>JavaScript errors and asynchronous calls\<close>

text \<open>
  A thrown JavaScript value is an error object with a message; \<open>catch ({ message })\<close>
  reads that message. A rejected promise and a thrown exception are the same thing to
  an \<open>await\<close>, so both are the \<open>Inl\<close> side of a result.
\<close>

datatype error = Error string | TypeError string | NumericFault string

fun message :: "error \<Rightarrow> string" where
  "message (Error m) = m"
| "message (TypeError m) = m"
| "message (NumericFault m) = m"

section \<open>The ethers number types the interactor computes with\<close>

text \<open>
  \<open>BigNumber\<close> is an arbitrary-precision integer. \<open>BigNumber.from\<close> of a JavaScript
  number refuses a number with a fractional part (\<open>value % 1\<close> is not zero: fault
  \<open>underflow\<close>) and a number outside the safe integer range (fault \<open>overflow\<close>).
  \<open>a.mul(other)\<close> is \<open>a * BigNumber.from(other)\<close>. \<open>a.div(other)\<close> throws the fault
  \<open>division-by-zero\<close> when \<open>other\<close> is zero and truncates towards zero otherwise.
  \<open>gt\<close>, \<open>gte\<close>, \<open>eq\<close> and \<open>sub\<close> are the integer operations.
\<close>

type_synonym BigNumber = int

definition MAX_SAFE :: int where
  "MAX_SAFE = 9007199254740991"

definition BigNumber_from_number :: "rat \<Rightarrow> error + BigNumber" where
  "BigNumber_from_number v =
     (if frac v \<noteq> 0 then Inl (NumericFault ''underflow'')
      else if of_int MAX_SAFE \<le> v \<or> v \<le> - of_int MAX_SAFE then Inl (NumericFault ''overflow'')
      else Inr \<lfloor>v\<rfloor>)"

definition BigNumber_mul :: "BigNumber \<Rightarrow> rat \<Rightarrow> error + BigNumber" where
  "BigNumber_mul a other =
     (case BigNumber_from_number other of
        Inl e \<Rightarrow> Inl e
      | Inr b \<Rightarrow> Inr (a * b))"

definition BigNumber_div :: "BigNumber \<Rightarrow> BigNumber \<Rightarrow> error + BigNumber" where
  "BigNumber_div a other =
     (if other = 0 then Inl (NumericFault ''division-by-zero'')
      else Inr (sgn a * sgn other * (\<bar>a\<bar> div \<bar>other\<bar>)))"

text \<open>
  \<open>FixedNumber.from(v)\<close> of a BigNumber \<open>v\<close> builds a number of the default format
  \<open>fixed128x18\<close>: it keeps \<open>numeric = v * 10^18\<close> twice, as \<open>_hex\<close> (the two's complement
  of \<open>numeric\<close> on 128 bits, in hexadecimal) and as \<open>_value\<close> (the decimal string of
  \<open>numeric / 10^18\<close>). \<open>ceiling()\<close> splits the decimal string at the point, rebuilds a
  FixedNumber from the whole part and adds one when the number is not negative and has a
  fraction. \<open>BigNumber.from(x)\<close> of an object \<open>x\<close> that has \<open>toHexString\<close> (a FixedNumber
  has) is \<open>BigNumber.from(x.toHexString())\<close>, and a FixedNumber's \<open>toHexString()\<close> is its
  \<open>_hex\<close>: the scaled number, not the whole part.
\<close>

record FixedNumber =
  fn_hex :: int
  fn_value :: rat

definition toTwos :: "int \<Rightarrow> nat \<Rightarrow> int" where
  "toTwos n width = (if n < 0 then 2 ^ width - \<bar>n\<bar> else n)"

definition FixedNumber_from :: "BigNumber \<Rightarrow> FixedNumber" where
  "FixedNumber_from v =
     (let numeric = v * 10 ^ 18
      in \<lparr>fn_hex = toTwos numeric 128, fn_value = of_int numeric / 10 ^ 18\<rparr>)"

definition FixedNumber_ceiling :: "FixedNumber \<Rightarrow> FixedNumber" where
  "FixedNumber_ceiling x =
     (let isNegative = (fn_value x < 0);
          whole = (if isNegative then - \<lfloor>- fn_value x\<rfloor> else \<lfloor>fn_value x\<rfloor>);
          hasFraction = (frac (fn_value x) \<noteq> 0)
      in if \<not> isNegative \<and> hasFraction then FixedNumber_from (whole + 1)
         else FixedNumber_from whole)"

definition BigNumber_from_Hexable :: "FixedNumber \<Rightarrow> BigNumber" where
  "BigNumber_from_Hexable x = fn_hex x"

section \<open>Requests, verdicts and the contract gateway\<close>

text \<open>
  Of a request, the fields the interactor reads. The gas price is a BigNumberish that
  holds an integer: \<open>BigNumber.from\<close> of it is that integer. The deploy request is read
  through the same fields as the relay request.
\<close>

record RelayData =
  gasPrice :: BigNumber
  relayWorker :: string
  callForwarder :: string

record ForwardRequest =
  relayHub :: string
  to :: string
  data :: string

record RelayRequestStruct =
  request :: ForwardRequest
  relayData :: RelayData

record DeployMetadata =
  relayHubAddress :: "string option"
  signature :: string

record DeployTransactionRequest =
  relayRequest :: RelayRequestStruct
  metadata :: DeployMetadata

text \<open>
  The relay verdict is the deploy verdict with one more field: the deploy check returns
  an object with \<open>verifierAccepted\<close>, \<open>returnValue\<close> and \<open>reverted\<close> only.
\<close>

record DeployVerdict =
  verifierAccepted :: bool
  returnValue :: string
  reverted :: bool

record RelayVerdict = DeployVerdict +
  revertedInDestination :: bool

datatype TxGasPrice = PriceOfRequest BigNumber | PriceOfDetails "string option"

record TransactionRequest =
  tx_from :: string
  tx_to :: string
  tx_data :: string
  tx_gasPrice :: TxGasPrice

record EstimateGasParams =
  p_from :: string
  p_to :: string
  p_data :: string
  p_gasPrice :: "string option"

record JsonRpcSigner =
  signer_address :: string

text \<open>
  \<open>relayCall\<close> and \<open>deployCall\<close> change the hub's state. Called directly on the contract
  object, as the interactor does, such a method sends a transaction and resolves to that
  transaction, a \<open>ContractTransaction\<close>, of which the hash is read after \<open>deployCall\<close>.
  The value the contract's \<open>relayCall\<close> returns, \<open>destinationCallSuccess\<close>, is the answer
  of the static call \<open>callStatic.relayCall\<close>, which the interactor does not make.
\<close>

record ContractTransaction =
  hash :: string

text \<open>
  Every call that leaves the process is recorded, in order. The gateway gives the answer
  of the node or contract to each call: \<open>Inl\<close> when the call throws. \<open>getSigner\<close> and
  \<open>encodeFunctionData\<close> compute locally and are not recorded.
\<close>

datatype Call =
    EstimateGas TransactionRequest
  | EstimateGasDeployCall string string
  | GetBalance string
  | VerifyRelayedCall JsonRpcSigner
  | RelayCall JsonRpcSigner BigNumber BigNumber
  | DeployVerifyRelayedCall JsonRpcSigner
  | DeployCall JsonRpcSigner BigNumber BigNumber

record Gateway =
  provider_estimateGas :: "TransactionRequest \<Rightarrow> error + BigNumber"
  provider_getBalance :: "string \<Rightarrow> error + BigNumber"
  provider_getSigner :: "string \<Rightarrow> JsonRpcSigner"
  relayHub_encodeFunctionData :: "RelayRequestStruct \<Rightarrow> string \<Rightarrow> string"
  relayHub_estimateGas_deployCall ::
    "string \<Rightarrow> string \<Rightarrow> RelayRequestStruct \<Rightarrow> string \<Rightarrow> BigNumber \<Rightarrow> error + BigNumber"
  relayVerifier_verifyRelayedCall ::
    "JsonRpcSigner \<Rightarrow> RelayRequestStruct \<Rightarrow> string \<Rightarrow> error + unit"
  deployVerifier_verifyRelayedCall ::
    "JsonRpcSigner \<Rightarrow> RelayRequestStruct \<Rightarrow> string \<Rightarrow> error + unit"
  relayHub_relayCall ::
    "JsonRpcSigner \<Rightarrow> RelayRequestStruct \<Rightarrow> string \<Rightarrow> BigNumber \<Rightarrow> BigNumber \<Rightarrow>
       error + ContractTransaction"
  relayHub_callStatic_relayCall ::
    "JsonRpcSigner \<Rightarrow> RelayRequestStruct \<Rightarrow> string \<Rightarrow> BigNumber \<Rightarrow> BigNumber \<Rightarrow> error + bool"
  relayHub_deployCall ::
    "JsonRpcSigner \<Rightarrow> RelayRequestStruct \<Rightarrow> string \<Rightarrow> BigNumber \<Rightarrow> BigNumber \<Rightarrow>
       error + ContractTransaction"
  relayHub_versionHub :: "error + string"

text \<open>
  The two constants of \<open>./constants\<close>, parameters here. The correction factor is a
  JavaScript number, given by its exact value; the internal transaction correction is a
  whole amount of gas.
\<close>

record Constants =
  ESTIMATED_GAS_CORRECTION_FACTOR :: rat
  INTERNAL_TRANSACTION_ESTIMATE_CORRECTION :: BigNumber

definition AddressZero :: string where
  "AddressZero = ''0x0000000000000000000000000000000000000000''"

subsection \<open>Asynchronous computations: the calls made so far and a result\<close>

type_synonym 'a io = "Call list \<times> (error + 'a)"

definition io_return :: "'a \<Rightarrow> 'a io" where
  "io_return x = ([], Inr x)"

definition io_throw :: "error \<Rightarrow> 'a io" where
  "io_throw e = ([], Inl e)"

definition io_lift :: "error + 'a \<Rightarrow> 'a io" where
  "io_lift r = ([], r)"

definition io_call :: "Call \<Rightarrow> error + 'a \<Rightarrow> 'a io" where
  "io_call c r = ([c], r)"

definition io_bind :: "'a io \<Rightarrow> ('a \<Rightarrow> 'b io) \<Rightarrow> 'b io" where
  "io_bind m f =
     (case m of
        (cs, Inl e) \<Rightarrow> (cs, Inl e)
      | (cs, Inr x) \<Rightarrow> (case f x of (cs', r) \<Rightarrow> (cs @ cs', r)))"

text \<open>\<open>try { x = await m } catch (e) { ... }\<close>: the outcome of \<open>m\<close> as a value.\<close>

definition io_try :: "'a io \<Rightarrow> (error + 'a) io" where
  "io_try m = (case m of (cs, r) \<Rightarrow> (cs, Inr r))"

section \<open>ContractInteractor: gas estimation\<close>

definition getBalance :: "Gateway \<Rightarrow> string \<Rightarrow> BigNumber io" where
  "getBalance g address = io_call (GetBalance address) (provider_getBalance g address)"

definition estimateRelayTransactionMaxPossibleGas ::
  "Gateway \<Rightarrow> Constants \<Rightarrow> RelayRequestStruct \<Rightarrow> string \<Rightarrow> BigNumber io" where
  "estimateRelayTransactionMaxPossibleGas g k req sig =
     (let encodedTargetCall = relayHub_encodeFunctionData g req sig;
          tx = \<lparr>tx_from = relayWorker (relayData req), tx_to = relayHub (request req),
                tx_data = encodedTargetCall,
                tx_gasPrice = PriceOfRequest (gasPrice (relayData req))\<rparr>
      in io_bind (io_call (EstimateGas tx) (provider_estimateGas g tx)) (\<lambda>maxPossibleGas.
         io_bind (io_lift (BigNumber_mul maxPossibleGas (ESTIMATED_GAS_CORRECTION_FACTOR k)))
           (\<lambda>corrected.
         io_return (BigNumber_from_Hexable (FixedNumber_ceiling (FixedNumber_from corrected))))))"

definition estimateDestinationContractCallGas ::
  "Gateway \<Rightarrow> Constants \<Rightarrow> EstimateGasParams \<Rightarrow> bool \<Rightarrow> BigNumber io" where
  "estimateDestinationContractCallGas g k transactionDetails addCushion =
     (let tx = \<lparr>tx_from = p_from transactionDetails, tx_to = p_to transactionDetails,
                tx_data = p_data transactionDetails,
                tx_gasPrice = PriceOfDetails (p_gasPrice transactionDetails)\<rparr>
      in io_bind (io_call (EstimateGas tx) (provider_estimateGas g tx)) (\<lambda>estimated.
         let internalCallCost =
               (if estimated > INTERNAL_TRANSACTION_ESTIMATE_CORRECTION k
                then estimated - INTERNAL_TRANSACTION_ESTIMATE_CORRECTION k
                else estimated)
         in if addCushion
            then io_lift (BigNumber_mul internalCallCost (ESTIMATED_GAS_CORRECTION_FACTOR k))
            else io_return internalCallCost))"

text \<open>
  In \<open>getMaxViewableRelayGasLimit\<close> the test of the gas price guards the expression
  statement \<open>0;\<close>, which does nothing: whatever the gas price, the estimation and the
  balance read follow.
\<close>

definition getMaxViewableRelayGasLimit ::
  "Gateway \<Rightarrow> Constants \<Rightarrow> RelayRequestStruct \<Rightarrow> string \<Rightarrow> BigNumber io" where
  "getMaxViewableRelayGasLimit g k req sig =
     io_bind (if \<not> (gasPrice (relayData req) = 0) then io_return () else io_return ()) (\<lambda>_.
     io_bind (estimateRelayTransactionMaxPossibleGas g k req sig) (\<lambda>maxEstimatedGas.
     io_bind (getBalance g (relayWorker (relayData req))) (\<lambda>balance.
     io_bind (io_lift (BigNumber_div balance (gasPrice (relayData req))))
       (\<lambda>workerBalanceAsUnitsOfGas.
     io_return (if workerBalanceAsUnitsOfGas \<ge> maxEstimatedGas then maxEstimatedGas else 0)))))"

definition walletFactoryEstimateGasOfDeployCall ::
  "Gateway \<Rightarrow> DeployTransactionRequest \<Rightarrow> BigNumber io" where
  "walletFactoryEstimateGasOfDeployCall g dreq =
     (case relayHubAddress (metadata dreq) of
        None \<Rightarrow> io_throw (Error ''calculateDeployCallGas: RelayHub must be defined'')
      | Some hub \<Rightarrow>
          if hub = [] \<or> hub = AddressZero
          then io_throw (Error ''calculateDeployCallGas: RelayHub must be defined'')
          else let worker = relayWorker (relayData (relayRequest dreq))
               in io_call (EstimateGasDeployCall hub worker)
                    (relayHub_estimateGas_deployCall g hub worker (relayRequest dreq)
                       (signature (metadata dreq)) (gasPrice (relayData (relayRequest dreq)))))"

definition getMaxViewableDeployGasLimit ::
  "Gateway \<Rightarrow> DeployTransactionRequest \<Rightarrow> BigNumber io" where
  "getMaxViewableDeployGasLimit g dreq =
     (let price = gasPrice (relayData (relayRequest dreq));
          worker = relayWorker (relayData (relayRequest dreq))
      in if price = 0 then io_return 0
         else
           io_bind (walletFactoryEstimateGasOfDeployCall g dreq) (\<lambda>maxEstimatedGas.
           io_bind (getBalance g worker) (\<lambda>balance.
           io_bind (io_lift (BigNumber_div balance price)) (\<lambda>workerBalanceAsUnitsOfGas.
           io_return
             (if workerBalanceAsUnitsOfGas \<ge> maxEstimatedGas then maxEstimatedGas else 0)))))"

section \<open>ContractInteractor: the relay and deploy feasibility checks\<close>

text \<open>
  The source notes of the awaited \<open>relayHub.relayCall\<close> that "res is
  destinationCallSuccess" and negates it. What is awaited is the transaction: an object,
  and the negation \<open>!res\<close> of an object is false.
\<close>

definition isTruthy :: "ContractTransaction \<Rightarrow> bool" where
  "isTruthy res = True"

definition validateAcceptRelayCall ::
  "Gateway \<Rightarrow> Constants \<Rightarrow> RelayRequestStruct \<Rightarrow> string \<Rightarrow> RelayVerdict io" where
  "validateAcceptRelayCall g k req sig =
     io_bind (getMaxViewableRelayGasLimit g k req sig) (\<lambda>externalGasLimit.
     let worker = provider_getSigner g (relayWorker (relayData req))
     in if externalGasLimit = 0
        then io_return
          \<lparr>verifierAccepted = False,
           returnValue = ''relayWorker '' @ relayWorker (relayData req) @
             '' does not have enough balance to cover the maximum possible gas for this transaction'',
           reverted = False,
           revertedInDestination = False\<rparr>
        else
          io_bind (io_try (io_call (VerifyRelayedCall worker)
                     (relayVerifier_verifyRelayedCall g worker req sig))) (\<lambda>verified.
          case verified of
            Inl e \<Rightarrow> io_return
              \<lparr>verifierAccepted = False,
               returnValue = ''view call to 'relayCall' reverted in verifier: '' @ message e,
               reverted = False,
               revertedInDestination = False\<rparr>
          | Inr _ \<Rightarrow>
              io_bind (io_try (io_call
                         (RelayCall worker (gasPrice (relayData req)) externalGasLimit)
                         (relayHub_relayCall g worker req sig (gasPrice (relayData req))
                            externalGasLimit))) (\<lambda>relayed.
              case relayed of
                Inr res \<Rightarrow> io_return
                  \<lparr>verifierAccepted = True, returnValue = [], reverted = False,
                   revertedInDestination = (\<not> isTruthy res)\<rparr>
              | Inl e \<Rightarrow> io_return
                  \<lparr>verifierAccepted = True,
                   returnValue = ''view call to 'relayCall' reverted in client: '' @ message e,
                   reverted = True,
                   revertedInDestination = False\<rparr>)))"

definition validateAcceptDeployCall ::
  "Gateway \<Rightarrow> DeployTransactionRequest \<Rightarrow> DeployVerdict io" where
  "validateAcceptDeployCall g dreq =
     io_bind (getMaxViewableDeployGasLimit g dreq) (\<lambda>externalGasLimit.
     let req = relayRequest dreq;
         sig = signature (metadata dreq);
         worker = provider_getSigner g (relayWorker (relayData req))
     in if externalGasLimit = 0
        then io_return
          \<lparr>verifierAccepted = False,
           returnValue = ''relayWorker '' @ signer_address worker @
             '' does not have enough balance to cover the maximum possible gas for this transaction'',
           reverted = False\<rparr>
        else
          io_bind (io_try (io_call (DeployVerifyRelayedCall worker)
                     (deployVerifier_verifyRelayedCall g worker req sig))) (\<lambda>verified.
          case verified of
            Inl e \<Rightarrow> io_return
              \<lparr>verifierAccepted = False,
               returnValue = ''view call to 'deploy call' reverted in verifier: '' @ message e,
               reverted = False\<rparr>
          | Inr _ \<Rightarrow>
              io_bind (io_try (io_call
                         (DeployCall worker (gasPrice (relayData req)) externalGasLimit)
                         (relayHub_deployCall g worker req sig (gasPrice (relayData req))
                            externalGasLimit))) (\<lambda>deployed.
              case deployed of
                Inr res \<Rightarrow> io_return
                  \<lparr>verifierAccepted = True, returnValue = hash res, reverted = False\<rparr>
              | Inl e \<Rightarrow> io_return
                  \<lparr>verifierAccepted = True,
                   returnValue = ''view call to 'deployCall' reverted in client: '' @ message e,
                   reverted = True\<rparr>)))"

text \<open>
  The verdicts as the object literals the checks return: the properties each literal
  writes, and the reading of a property, \<open>undefined\<close> for one the literal does not write.
\<close>

datatype JSValue = JSBoolean bool | JSString string | JSUndefined

definition RelayVerdict_properties :: "RelayVerdict \<Rightarrow> (string \<times> JSValue) list" where
  "RelayVerdict_properties v =
     [(''verifierAccepted'', JSBoolean (verifierAccepted v)),
      (''reverted'', JSBoolean (reverted v)),
      (''returnValue'', JSString (returnValue v)),
      (''revertedInDestination'', JSBoolean (revertedInDestination v))]"

definition DeployVerdict_properties :: "DeployVerdict \<Rightarrow> (string \<times> JSValue) list" where
  "DeployVerdict_properties v =
     [(''verifierAccepted'', JSBoolean (verifierAccepted v)),
      (''reverted'', JSBoolean (reverted v)),
      (''returnValue'', JSString (returnValue v))]"

definition getProperty :: "(string \<times> JSValue) list \<Rightarrow> string \<Rightarrow> JSValue" where
  "getProperty object name =
     (case map_of object name of None \<Rightarrow> JSUndefined | Some v \<Rightarrow> v)"

text \<open>The simulations: the verifier's acceptance check and the hub's execution.\<close>

fun isSimulation :: "Call \<Rightarrow> bool" where
  "isSimulation (VerifyRelayedCall _) = True"
| "isSimulation (RelayCall _ _ _) = True"
| "isSimulation (DeployVerifyRelayedCall _) = True"
| "isSimulation (DeployCall _ _ _) = True"
| "isSimulation _ = False"

section \<open>The semver library: versions and their order\<close>

text \<open>
  \<open>VersionsManager\<close> calls \<open>semver.valid\<close> and \<open>semver.satisfies\<close>. A string is a version
  when, once trimmed, it matches the expression \<open>FULL\<close>: an optional \<open>v\<close>, three numeric
  identifiers separated by dots, an optional prerelease after a hyphen and an optional
  build after a plus sign. Strings are sequences of 8-bit code units.
\<close>

definition isDigit :: "char \<Rightarrow> bool" where
  "isDigit c = (let n = (of_char c :: nat) in 48 \<le> n \<and> n \<le> 57)"

definition isLetterDashNumber :: "char \<Rightarrow> bool" where
  "isLetterDashNumber c =
     (let n = (of_char c :: nat)
      in (48 \<le> n \<and> n \<le> 57) \<or> (65 \<le> n \<and> n \<le> 90) \<or> (97 \<le> n \<and> n \<le> 122) \<or> n = 45)"

definition isSpace :: "char \<Rightarrow> bool" where
  "isSpace c = (let n = (of_char c :: nat) in (9 \<le> n \<and> n \<le> 13) \<or> n = 32 \<or> n = 160)"

definition trim :: "string \<Rightarrow> string" where
  "trim s = rev (dropWhile isSpace (rev (dropWhile isSpace s)))"

fun splitString :: "char \<Rightarrow> string \<Rightarrow> string list" where
  "splitString sep [] = [[]]"
| "splitString sep (c # cs) =
     (if c = sep then [] # splitString sep cs
      else (case splitString sep cs of
              [] \<Rightarrow> [[c]]
            | w # ws \<Rightarrow> (c # w) # ws))"

definition digitsValue :: "string \<Rightarrow> nat" where
  "digitsValue s = foldl (\<lambda>a c. 10 * a + (of_char c - 48)) 0 s"

definition isNumericIdentifier :: "string \<Rightarrow> bool" where
  "isNumericIdentifier s = (s \<noteq> [] \<and> list_all isDigit s \<and> (s = ''0'' \<or> hd s \<noteq> CHR ''0''))"

definition isPrereleaseIdentifier :: "string \<Rightarrow> bool" where
  "isPrereleaseIdentifier s =
     (s \<noteq> [] \<and> list_all isLetterDashNumber s \<and>
      (if list_all isDigit s then isNumericIdentifier s else True))"

definition isBuildIdentifier :: "string \<Rightarrow> bool" where
  "isBuildIdentifier s = (s \<noteq> [] \<and> list_all isLetterDashNumber s)"

text \<open>
  The match of \<open>FULL\<close>: the three numbers, the prerelease and the build as the groups of
  the expression hold them. The main version has digits and dots only, so it ends where
  the first hyphen or plus sign stands; the prerelease has no plus sign, so it ends at
  the first one.
\<close>

definition matchFull ::
  "string \<Rightarrow> (string \<times> string \<times> string \<times> string option \<times> string option) option" where
  "matchFull t =
     (let r = (case t of [] \<Rightarrow> [] | c # cs \<Rightarrow> if c = CHR ''v'' then cs else t);
          isMain = (\<lambda>c. c \<noteq> CHR ''-'' \<and> c \<noteq> CHR ''+'');
          main = takeWhile isMain r;
          rest = dropWhile isMain r
      in case splitString CHR ''.'' main of
           [a, b, c] \<Rightarrow>
             if isNumericIdentifier a \<and> isNumericIdentifier b \<and> isNumericIdentifier c
             then (case rest of
                     [] \<Rightarrow> Some (a, b, c, None, None)
                   | x # xs \<Rightarrow>
                       if x = CHR ''-''
                       then (let pre = takeWhile (\<lambda>c. c \<noteq> CHR ''+'') xs;
                                 rest' = dropWhile (\<lambda>c. c \<noteq> CHR ''+'') xs
                             in if list_all isPrereleaseIdentifier (splitString CHR ''.'' pre)
                                then (case rest' of
                                        [] \<Rightarrow> Some (a, b, c, Some pre, None)
                                      | _ # bld \<Rightarrow>
                                          if list_all isBuildIdentifier (splitString CHR ''.'' bld)
                                          then Some (a, b, c, Some pre, Some bld)
                                          else None)
                                else None)
                       else if list_all isBuildIdentifier (splitString CHR ''.'' xs)
                            then Some (a, b, c, None, Some xs)
                            else None)
             else None
         | _ \<Rightarrow> None)"

datatype Identifier = Num nat | Str string

record SemVer =
  major :: nat
  minor :: nat
  patch :: nat
  prerelease :: "Identifier list"
  build :: "string list"

definition MAX_LENGTH :: nat where
  "MAX_LENGTH = 256"

definition MAX_SAFE_INTEGER :: nat where
  "MAX_SAFE_INTEGER = 9007199254740991"

text \<open>A prerelease identifier of digits becomes a number when it is below \<open>MAX_SAFE_INTEGER\<close>.\<close>

definition numberify :: "string \<Rightarrow> Identifier" where
  "numberify ident =
     (if ident \<noteq> [] \<and> list_all isDigit ident
      then (let num = digitsValue ident in if num < MAX_SAFE_INTEGER then Num num else Str ident)
      else Str ident)"

definition SemVer_new :: "string \<Rightarrow> error + SemVer" where
  "SemVer_new version =
     (if length version > MAX_LENGTH
      then Inl (TypeError ''version is longer than 256 characters'')
      else case matchFull (trim version) of
             None \<Rightarrow> Inl (TypeError (''Invalid Version: '' @ version))
           | Some (a, b, c, pre, bld) \<Rightarrow>
               if digitsValue a > MAX_SAFE_INTEGER then Inl (TypeError ''Invalid major version'')
               else if digitsValue b > MAX_SAFE_INTEGER then Inl (TypeError ''Invalid minor version'')
               else if digitsValue c > MAX_SAFE_INTEGER then Inl (TypeError ''Invalid patch version'')
               else Inr \<lparr>major = digitsValue a, minor = digitsValue b, patch = digitsValue c,
                         prerelease = (case pre of None \<Rightarrow> []
                                       | Some p \<Rightarrow> map numberify (splitString CHR ''.'' p)),
                         build = (case bld of None \<Rightarrow> [] | Some b \<Rightarrow> splitString CHR ''.'' b)\<rparr>)"

text \<open>
  \<open>semver.parse\<close> answers null for a text that is too long, for a text that does not match
  \<open>FULL\<close> as it stands, without trimming, and when the constructor throws.
  \<open>semver.valid\<close> answers null exactly when \<open>parse\<close> does.
\<close>

definition parse :: "string \<Rightarrow> SemVer option" where
  "parse version =
     (if length version > MAX_LENGTH then None
      else if matchFull version = None then None
      else (case SemVer_new version of Inl _ \<Rightarrow> None | Inr v \<Rightarrow> Some v))"

definition valid :: "string \<Rightarrow> SemVer option" where
  "valid version = parse version"

text \<open>
  \<open>compareIdentifiers\<close> turns two identifiers of digits into JavaScript numbers before it
  compares them. A number is a double: an integer of more than 53 bits is rounded to the
  nearest one with 53 significant bits, ties to even.
\<close>

fun bitlen :: "nat \<Rightarrow> nat" where
  "bitlen n = (if n = 0 then 0 else Suc (bitlen (n div 2)))"

definition toNumber :: "nat \<Rightarrow> nat" where
  "toNumber n =
     (if n < 2 ^ 53 then n
      else (let e = bitlen n - 53;
                q = n div 2 ^ e;
                r = n mod 2 ^ e;
                half = 2 ^ (e - 1)
            in if half < r \<or> (r = half \<and> odd q) then (q + 1) * 2 ^ e else q * 2 ^ e))"

fun isNumeric :: "Identifier \<Rightarrow> bool" where
  "isNumeric (Num _) = True"
| "isNumeric (Str s) = (s \<noteq> [] \<and> list_all isDigit s)"

fun numberOf :: "Identifier \<Rightarrow> nat" where
  "numberOf (Num n) = n"
| "numberOf (Str s) = toNumber (digitsValue s)"

fun stringLess :: "string \<Rightarrow> string \<Rightarrow> bool" where
  "stringLess [] [] = False"
| "stringLess [] (y # ys) = True"
| "stringLess (x # xs) [] = False"
| "stringLess (x # xs) (y # ys) =
     (if x = y then stringLess xs ys else (of_char x :: nat) < of_char y)"

fun stringOf :: "Identifier \<Rightarrow> string" where
  "stringOf (Str s) = s"
| "stringOf (Num n) = []"

definition compareIdentifiers :: "Identifier \<Rightarrow> Identifier \<Rightarrow> int" where
  "compareIdentifiers a b =
     (let anum = isNumeric a; bnum = isNumeric b
      in if anum \<and> bnum
         then (if numberOf a = numberOf b then 0 else if numberOf a < numberOf b then - 1 else 1)
         else if a = b then 0
         else if anum \<and> \<not> bnum then - 1
         else if bnum \<and> \<not> anum then 1
         else if stringLess (stringOf a) (stringOf b) then - 1 else 1)"

definition compareMain :: "SemVer \<Rightarrow> SemVer \<Rightarrow> int" where
  "compareMain this other =
     (let c1 = compareIdentifiers (Num (major this)) (Num (major other))
      in if c1 \<noteq> 0 then c1
         else (let c2 = compareIdentifiers (Num (minor this)) (Num (minor other))
               in if c2 \<noteq> 0 then c2
                  else compareIdentifiers (Num (patch this)) (Num (patch other))))"

fun comparePreLoop :: "Identifier list \<Rightarrow> Identifier list \<Rightarrow> int" where
  "comparePreLoop [] [] = 0"
| "comparePreLoop (a # as) [] = 1"
| "comparePreLoop [] (b # bs) = - 1"
| "comparePreLoop (a # as) (b # bs) =
     (if a = b then comparePreLoop as bs else compareIdentifiers a b)"

definition comparePre :: "SemVer \<Rightarrow> SemVer \<Rightarrow> int" where
  "comparePre this other =
     (if prerelease this \<noteq> [] \<and> prerelease other = [] then - 1
      else if prerelease this = [] \<and> prerelease other \<noteq> [] then 1
      else if prerelease this = [] \<and> prerelease other = [] then 0
      else comparePreLoop (prerelease this) (prerelease other))"

text \<open>
  The \<open>version\<close> string of a version is made of its three numbers and its prerelease: two
  versions have the same string exactly when these agree.
\<close>

definition sameVersion :: "SemVer \<Rightarrow> SemVer \<Rightarrow> bool" where
  "sameVersion a b =
     (major a = major b \<and> minor a = minor b \<and> patch a = patch b \<and> prerelease a = prerelease b)"

definition compare :: "SemVer \<Rightarrow> SemVer \<Rightarrow> int" where
  "compare this other =
     (if sameVersion other this then 0
      else (let m = compareMain this other in if m \<noteq> 0 then m else comparePre this other))"

definition cmp :: "SemVer \<Rightarrow> string \<Rightarrow> SemVer \<Rightarrow> error + bool" where
  "cmp a op b =
     (if op = ''==='' then Inr (sameVersion a b)
      else if op = ''!=='' then Inr (\<not> sameVersion a b)
      else if op = [] \<or> op = ''='' \<or> op = ''=='' then Inr (compare a b = 0)
      else if op = ''!='' then Inr (compare a b \<noteq> 0)
      else if op = ''>'' then Inr (compare a b > 0)
      else if op = ''>='' then Inr (compare a b \<ge> 0)
      else if op = ''<'' then Inr (compare a b < 0)
      else if op = ''<='' then Inr (compare a b \<le> 0)
      else Inl (TypeError (''Invalid operator: '' @ op)))"

section \<open>The semver library: caret ranges\<close>

record Comparator =
  operator :: string
  semver :: SemVer

text \<open>
  A comparator is written as text and read back: its version goes through the
  constructor of \<open>SemVer\<close>, which throws when a number is above \<open>MAX_SAFE_INTEGER\<close>.
\<close>

definition Comparator_new :: "string \<Rightarrow> SemVer \<Rightarrow> error + Comparator" where
  "Comparator_new op v =
     (if major v > MAX_SAFE_INTEGER then Inl (TypeError ''Invalid major version'')
      else if minor v > MAX_SAFE_INTEGER then Inl (TypeError ''Invalid minor version'')
      else if patch v > MAX_SAFE_INTEGER then Inl (TypeError ''Invalid patch version'')
      else Inr \<lparr>operator = op, semver = v\<rparr>)"

definition Comparator_test :: "Comparator \<Rightarrow> SemVer \<Rightarrow> error + bool" where
  "Comparator_test c version = cmp version (operator c) (semver c)"

text \<open>
  \<open>replaceCaret\<close> on \<open>^M.m.p-pr\<close>: the lower bound is the version itself, without its
  build; the upper bound is the lowest prerelease \<open>-0\<close> of the next major version, of the
  next minor version when the major is zero, of the next patch when both are zero.
\<close>

definition replaceCaret :: "SemVer \<Rightarrow> SemVer \<times> SemVer" where
  "replaceCaret v =
     (v\<lparr>build := []\<rparr>,
      if major v \<noteq> 0
      then \<lparr>major = major v + 1, minor = 0, patch = 0, prerelease = [Num 0], build = []\<rparr>
      else if minor v \<noteq> 0
      then \<lparr>major = 0, minor = minor v + 1, patch = 0, prerelease = [Num 0], build = []\<rparr>
      else \<lparr>major = 0, minor = 0, patch = patch v + 1, prerelease = [Num 0], build = []\<rparr>)"

text \<open>
  The only ranges the interactor builds are a caret followed by its component version,
  which \<open>semver.valid\<close> has accepted; any other text is refused here. The range is a list
  of comparator lists, here a single one. The comparator \<open>>=0.0.0\<close> accepts everything and
  is dropped beside another comparator.
\<close>

definition Range_new :: "string \<Rightarrow> error + Comparator list list" where
  "Range_new rangeText =
     (case rangeText of
        [] \<Rightarrow> Inl (TypeError ''Invalid SemVer Range: '')
      | c # cv \<Rightarrow>
          if c \<noteq> CHR ''^'' then Inl (TypeError (''Invalid SemVer Range: '' @ rangeText))
          else (case SemVer_new cv of
                  Inl _ \<Rightarrow> Inl (TypeError (''Invalid SemVer Range: '' @ rangeText))
                | Inr v \<Rightarrow>
                    (case Comparator_new ''>='' (fst (replaceCaret v)) of
                       Inl e \<Rightarrow> Inl e
                     | Inr lower \<Rightarrow>
                         (case Comparator_new ''<'' (snd (replaceCaret v)) of
                            Inl e \<Rightarrow> Inl e
                          | Inr upper \<Rightarrow>
                              if major v = 0 \<and> minor v = 0 \<and> patch v = 0 \<and> prerelease v = []
                              then Inr [[upper]]
                              else Inr [[lower, upper]]))))"

fun testAll :: "Comparator list \<Rightarrow> SemVer \<Rightarrow> error + bool" where
  "testAll [] version = Inr True"
| "testAll (c # cs) version =
     (case Comparator_test c version of
        Inl e \<Rightarrow> Inl e
      | Inr ok \<Rightarrow> if ok then testAll cs version else Inr False)"

text \<open>
  A version with a prerelease passes a comparator list only when one of the comparators
  has a prerelease on the same major, minor and patch.
\<close>

definition allowsPrerelease :: "Comparator \<Rightarrow> SemVer \<Rightarrow> bool" where
  "allowsPrerelease c version =
     (prerelease (semver c) \<noteq> [] \<and> major (semver c) = major version \<and>
      minor (semver c) = minor version \<and> patch (semver c) = patch version)"

definition testSet :: "Comparator list \<Rightarrow> SemVer \<Rightarrow> error + bool" where
  "testSet set' version =
     (case testAll set' version of
        Inl e \<Rightarrow> Inl e
      | Inr ok \<Rightarrow>
          if \<not> ok then Inr False
          else if prerelease version \<noteq> []
          then Inr (list_ex (\<lambda>c. allowsPrerelease c version) set')
          else Inr True)"

fun testAny :: "Comparator list list \<Rightarrow> SemVer \<Rightarrow> error + bool" where
  "testAny [] version = Inr False"
| "testAny (s # ss) version =
     (case testSet s version of
        Inl e \<Rightarrow> Inl e
      | Inr ok \<Rightarrow> if ok then Inr True else testAny ss version)"

definition Range_test :: "Comparator list list \<Rightarrow> string \<Rightarrow> error + bool" where
  "Range_test r version =
     (if version = [] then Inr False
      else case SemVer_new version of
             Inl _ \<Rightarrow> Inr False
           | Inr v \<Rightarrow> testAny r v)"

definition satisfies :: "string \<Rightarrow> string \<Rightarrow> error + bool" where
  "satisfies version rangeText =
     (case Range_new rangeText of
        Inl _ \<Rightarrow> Inr False
      | Inr r \<Rightarrow> Range_test r version)"

section \<open>VersionsManager\<close>

text \<open>
  \<open>version.replace('_', '-')\<close> has a string for pattern: it replaces the first
  occurrence only.
\<close>

fun replace :: "char \<Rightarrow> char \<Rightarrow> string \<Rightarrow> string" where
  "replace p r [] = []"
| "replace p r (c # cs) = (if c = p then r # cs else c # replace p r cs)"

record VersionsManager =
  componentVersion :: string

definition VersionsManager_new :: "string \<Rightarrow> error + VersionsManager" where
  "VersionsManager_new cv =
     (if valid cv = None then Inl (Error ''Component version is not valid'')
      else Inr \<lparr>componentVersion = cv\<rparr>)"

definition isMinorSameOrNewer :: "VersionsManager \<Rightarrow> string \<Rightarrow> error + bool" where
  "isMinorSameOrNewer this version =
     (let version' = replace CHR ''_'' CHR ''-'' version;
          rangeText = CHR ''^'' # componentVersion this
      in satisfies version' rangeText)"



definition allDigits :: "string \<Rightarrow> bool" where
  "allDigits s = (s \<noteq> [] \<and> list_all isDigit s)"






text \<open>
  A version whose prerelease identifiers of digits are all below \<open>MAX_SAFE_INTEGER\<close>: none
  of them is kept as text.
\<close>

fun safeIdentifier :: "Identifier \<Rightarrow> bool" where
  "safeIdentifier (Num n) = True"
| "safeIdentifier (Str s) = (\<not> allDigits s)"


section \<open>ContractInteractor: the single instance and the version gate\<close>

definition VERSION :: string where
  "VERSION = ''2.0.1''"

record EnvelopingConfig =
  cfg_relayHubAddress :: string
  cfg_relayVerifierAddress :: string
  cfg_deployVerifierAddress :: string

record ContractInteractor =
  versionManager :: VersionsManager
  config :: EnvelopingConfig

definition ContractInteractor_new :: "EnvelopingConfig \<Rightarrow> error + ContractInteractor" where
  "ContractInteractor_new cfg =
     (case VersionsManager_new VERSION of
        Inl e \<Rightarrow> Inl e
      | Inr vm \<Rightarrow> Inr \<lparr>versionManager = vm, config = cfg\<rparr>)"

definition validateVersion :: "ContractInteractor \<Rightarrow> string \<Rightarrow> error + unit" where
  "validateVersion this version =
     (case isMinorSameOrNewer (versionManager this) version of
        Inl e \<Rightarrow> Inl e
      | Inr isNewer \<Rightarrow>
          if \<not> isNewer
          then Inl (Error (''Provided Hub version('' @ version @
                 '') is not supported by the current interactor('' @
                 componentVersion (versionManager this) @ '')''))
          else Inr ())"

text \<open>
  \<open>getInstance\<close> reads and writes the static field \<open>instance\<close>: the field is an argument
  and comes back with the result. The field is assigned before the hub's version is read
  and validated.
\<close>

definition getInstance ::
  "Gateway \<Rightarrow> EnvelopingConfig \<Rightarrow> ContractInteractor option \<Rightarrow>
     ContractInteractor option \<times> (error + ContractInteractor)" where
  "getInstance g cfg instance =
     (case instance of
        Some this \<Rightarrow> (instance, Inr this)
      | None \<Rightarrow>
          (case ContractInteractor_new cfg of
             Inl e \<Rightarrow> (None, Inl e)
           | Inr created \<Rightarrow>
               (case relayHub_versionHub g of
                  Inl e \<Rightarrow> (Some created, Inl e)
                | Inr version \<Rightarrow>
                    (case validateVersion created version of
                       Inl e \<Rightarrow> (Some created, Inl e)
                     | Inr _ \<Rightarrow> (Some created, Inr created)))))"

section \<open>Sample gateways and requests\<close>

text \<open>
  A gateway that gives the same answer to every call of one kind: the gas estimate, the
  worker's balance, the verifier's answer, what the hub's \<open>relayCall\<close> does (it reverts, or
  returns \<open>destinationCallSuccess\<close>) and the hub's version. The static call gives what
  \<open>relayCall\<close> does; the direct call throws on a revert and resolves to the transaction
  otherwise.
\<close>

definition sampleGateway ::
  "BigNumber \<Rightarrow> BigNumber \<Rightarrow> error + unit \<Rightarrow> error + bool \<Rightarrow> string \<Rightarrow> Gateway" where
  "sampleGateway estimate balance verifierAnswer hubAnswer hubVersion =
     \<lparr>provider_estimateGas = (\<lambda>_. Inr estimate),
      provider_getBalance = (\<lambda>_. Inr balance),
      provider_getSigner = (\<lambda>a. \<lparr>signer_address = a\<rparr>),
      relayHub_encodeFunctionData = (\<lambda>_ _. ''0x''),
      relayHub_estimateGas_deployCall = (\<lambda>_ _ _ _ _. Inr estimate),
      relayVerifier_verifyRelayedCall = (\<lambda>_ _ _. verifierAnswer),
      deployVerifier_verifyRelayedCall = (\<lambda>_ _ _. verifierAnswer),
      relayHub_relayCall =
        (\<lambda>_ _ _ _ _. case hubAnswer of Inl e \<Rightarrow> Inl e | Inr _ \<Rightarrow> Inr \<lparr>hash = ''0xhash''\<rparr>),
      relayHub_callStatic_relayCall = (\<lambda>_ _ _ _ _. hubAnswer),
      relayHub_deployCall = (\<lambda>_ _ _ _ _. Inr \<lparr>hash = ''0xhash''\<rparr>),
      relayHub_versionHub = Inr hubVersion\<rparr>"

definition sampleRequest :: "BigNumber \<Rightarrow> RelayRequestStruct" where
  "sampleRequest price =
     \<lparr>request = \<lparr>relayHub = ''0xhub'', to = ''0xto'', data = ''0xdata''\<rparr>,
      relayData = \<lparr>gasPrice = price, relayWorker = ''0xworker'',
                   callForwarder = ''0xforwarder''\<rparr>\<rparr>"

definition sampleDeployRequest :: "BigNumber \<Rightarrow> DeployTransactionRequest" where
  "sampleDeployRequest price =
     \<lparr>relayRequest = sampleRequest price,
      metadata = \<lparr>relayHubAddress = Some ''0xhub'', signature = ''0xsig''\<rparr>\<rparr>"

definition sampleDetails :: EstimateGasParams where
  "sampleDetails = \<lparr>p_from = ''0xfrom'', p_to = ''0xto'', p_data = ''0xdata'', p_gasPrice = Some ''1''\<rparr>"

definition sampleConstants :: "rat \<Rightarrow> Constants" where
  "sampleConstants factor =
     \<lparr>ESTIMATED_GAS_CORRECTION_FACTOR = factor,
      INTERNAL_TRANSACTION_ESTIMATE_CORRECTION = 20000\<rparr>"

definition sampleConfig :: EnvelopingConfig where
  "sampleConfig =
     \<lparr>cfg_relayHubAddress = ''0xhub'', cfg_relayVerifierAddress = ''0xrelayVerifier'',
      cfg_deployVerifierAddress = ''0xdeployVerifier''\<rparr>"

definition sampleTransaction :: "BigNumber \<Rightarrow> TransactionRequest" where
  "sampleTransaction price =
     \<lparr>tx_from = ''0xworker'', tx_to = ''0xhub'', tx_data = ''0x'',
      tx_gasPrice = PriceOfRequest price\<rparr>"

section \<open>Evaluation rules\<close>

lemmas io_defs = io_bind_def io_return_def io_throw_def io_lift_def io_call_def io_try_def

lemmas sample_defs = sampleGateway_def sampleRequest_def sampleDeployRequest_def
  sampleDetails_def sampleConstants_def sampleConfig_def sampleTransaction_def

lemmas number_defs = BigNumber_mul_def BigNumber_from_number_def BigNumber_div_def MAX_SAFE_def
  FixedNumber_from_def FixedNumber_ceiling_def BigNumber_from_Hexable_def toTwos_def

lemmas parse_defs = SemVer_new_def matchFull_def trim_def isSpace_def isDigit_def
  isLetterDashNumber_def isNumericIdentifier_def isPrereleaseIdentifier_def isBuildIdentifier_def
  digitsValue_def numberify_def MAX_LENGTH_def MAX_SAFE_INTEGER_def Let_def

lemmas order_defs = compare_def compareMain_def comparePre_def compareIdentifiers_def
  sameVersion_def cmp_def toNumber_def

lemma floor_11_10: "\<lfloor>11 / 10 :: rat\<rfloor> = 1"
  by (simp add: floor_eq_iff)

lemma frac_11_10: "frac (11 / 10 :: rat) \<noteq> 0"
  by (simp add: frac_def floor_11_10)

section \<open>The gas budget\<close>

lemma BigNumber_div_floor:
  "0 \<le> a \<Longrightarrow> 0 < b \<Longrightarrow> BigNumber_div a b = Inr (a div b)"
  by (cases "a = 0") (simp_all add: BigNumber_div_def sgn_if)

lemma relay_limit_calls:
  "filter isSimulation (fst (getMaxViewableRelayGasLimit g k req sig)) = []"
  by (auto simp: getMaxViewableRelayGasLimit_def estimateRelayTransactionMaxPossibleGas_def
        getBalance_def io_defs Let_def split: sum.splits prod.splits)

lemma deploy_limit_calls:
  "filter isSimulation (fst (getMaxViewableDeployGasLimit g dreq)) = []"
  by (auto simp: getMaxViewableDeployGasLimit_def walletFactoryEstimateGasOfDeployCall_def
        getBalance_def io_defs Let_def split: sum.splits prod.splits option.splits if_splits)

lemma sample_relay_estimate:
  "estimateRelayTransactionMaxPossibleGas (sampleGateway estimate b v h hv) (sampleConstants 1)
     (sampleRequest p) ''0xsig'' =
   ([EstimateGas (sampleTransaction p)],
    Inr (if estimate < 0 then 2 ^ 128 + estimate * 10 ^ 18 else estimate * 10 ^ 18))"
  by (simp add: estimateRelayTransactionMaxPossibleGas_def io_defs sample_defs number_defs Let_def)

lemma sample_request_fields:
  "gasPrice (relayData (sampleRequest p)) = p"
  "relayWorker (relayData (sampleRequest p)) = ''0xworker''"
  "provider_getBalance (sampleGateway estimate b v h hv) a = Inr b"
  by (simp_all add: sample_defs)

lemma sample_relay_limit:
  "0 \<le> b \<Longrightarrow> 0 < p \<Longrightarrow>
   getMaxViewableRelayGasLimit (sampleGateway 21000 b v h hv) (sampleConstants 1)
     (sampleRequest p) ''0xsig'' =
   ([EstimateGas (sampleTransaction p), GetBalance ''0xworker''],
    Inr (if 21000 * 10 ^ 18 \<le> b div p then 21000 * 10 ^ 18 else 0))"
  by (simp add: getMaxViewableRelayGasLimit_def getBalance_def sample_relay_estimate io_defs
        BigNumber_div_floor sample_request_fields)

lemma sample_deploy_limit:
  "0 \<le> b \<Longrightarrow> 0 < p \<Longrightarrow>
   getMaxViewableDeployGasLimit (sampleGateway 21000 b v h hv) (sampleDeployRequest p) =
   ([EstimateGasDeployCall ''0xhub'' ''0xworker'', GetBalance ''0xworker''],
    Inr (if 21000 \<le> b div p then 21000 else 0))"
  by (simp add: getMaxViewableDeployGasLimit_def walletFactoryEstimateGasOfDeployCall_def
        getBalance_def io_defs sample_defs AddressZero_def Let_def BigNumber_div_floor)

text \<open>
  C1, as stated, fails on the deploy check: with a worker balance of 0 the limit is zero
  and the verdict returned has no \<open>revertedInDestination\<close> property, so that reading it
  gives \<open>undefined\<close>, not \<open>false\<close>.
\<close>

theorem deploy_verdict_has_no_destination_flag:
  "getMaxViewableDeployGasLimit (sampleGateway 21000 0 (Inr ()) (Inr True) ''2.0.1'')
     (sampleDeployRequest 1) =
     ([EstimateGasDeployCall ''0xhub'' ''0xworker'', GetBalance ''0xworker''], Inr 0)
   \<and> validateAcceptDeployCall (sampleGateway 21000 0 (Inr ()) (Inr True) ''2.0.1'')
       (sampleDeployRequest 1) =
     ([EstimateGasDeployCall ''0xhub'' ''0xworker'', GetBalance ''0xworker''],
      Inr \<lparr>verifierAccepted = False,
           returnValue = ''relayWorker 0xworker does not have enough balance to cover the maximum possible gas for this transaction'',
           reverted = False\<rparr>)
   \<and> getProperty (DeployVerdict_properties
         \<lparr>verifierAccepted = False,
          returnValue = ''relayWorker 0xworker does not have enough balance to cover the maximum possible gas for this transaction'',
          reverted = False\<rparr>) ''revertedInDestination'' \<noteq> JSBoolean False"
proof -
  let ?g = "sampleGateway 21000 0 (Inr ()) (Inr True) ''2.0.1''"
  have d: "getMaxViewableDeployGasLimit ?g (sampleDeployRequest 1) =
      ([EstimateGasDeployCall ''0xhub'' ''0xworker'', GetBalance ''0xworker''], Inr 0)"
    by (simp add: sample_deploy_limit)
  have v: "validateAcceptDeployCall ?g (sampleDeployRequest 1) =
     ([EstimateGasDeployCall ''0xhub'' ''0xworker'', GetBalance ''0xworker''],
      Inr \<lparr>verifierAccepted = False,
           returnValue = ''relayWorker 0xworker does not have enough balance to cover the maximum possible gas for this transaction'',
           reverted = False\<rparr>)"
    by (simp add: validateAcceptDeployCall_def d io_bind_def io_return_def Let_def)
       (simp add: sample_defs)
  show ?thesis
    using d v by (simp add: getProperty_def DeployVerdict_properties_def)
qed

text \<open>
  C1, amended. When the maximum viewable gas limit computed for a relay or a deploy check
  is zero, the check returns the verdict with \<open>verifierAccepted\<close> and \<open>reverted\<close> false and
  the message that the relay worker does not have enough balance; the calls made are
  those of the limit's computation, none of which is a verifier or hub simulation. In
  the relay verdict \<open>revertedInDestination\<close> is false; the deploy verdict has no such
  property.
\<close>

theorem zero_budget_terminal_verdict:
  "(getMaxViewableRelayGasLimit g k req sig = (cs, Inr 0) \<longrightarrow>
      validateAcceptRelayCall g k req sig =
        (cs, Inr \<lparr>verifierAccepted = False,
           returnValue = ''relayWorker '' @ relayWorker (relayData req) @
             '' does not have enough balance to cover the maximum possible gas for this transaction'',
           reverted = False, revertedInDestination = False\<rparr>)
      \<and> filter isSimulation (fst (validateAcceptRelayCall g k req sig)) = [])
   \<and> (getMaxViewableDeployGasLimit g dreq = (cs', Inr 0) \<longrightarrow>
      (\<exists>verdict. validateAcceptDeployCall g dreq = (cs', Inr verdict) \<and>
         verdict = \<lparr>verifierAccepted = False,
           returnValue = ''relayWorker '' @
             signer_address (provider_getSigner g (relayWorker (relayData (relayRequest dreq)))) @
             '' does not have enough balance to cover the maximum possible gas for this transaction'',
           reverted = False\<rparr> \<and>
         getProperty (DeployVerdict_properties verdict) ''revertedInDestination'' = JSUndefined)
      \<and> filter isSimulation (fst (validateAcceptDeployCall g dreq)) = [])"
proof (intro conjI impI)
  assume h: "getMaxViewableRelayGasLimit g k req sig = (cs, Inr 0)"
  show r: "validateAcceptRelayCall g k req sig =
        (cs, Inr \<lparr>verifierAccepted = False,
           returnValue = ''relayWorker '' @ relayWorker (relayData req) @
             '' does not have enough balance to cover the maximum possible gas for this transaction'',
           reverted = False, revertedInDestination = False\<rparr>)"
    by (simp add: validateAcceptRelayCall_def h io_bind_def io_return_def)
  show "filter isSimulation (fst (validateAcceptRelayCall g k req sig)) = []"
    using relay_limit_calls [of g k req sig] by (simp add: h r)
next
  assume h: "getMaxViewableDeployGasLimit g dreq = (cs', Inr 0)"
  have r: "validateAcceptDeployCall g dreq =
        (cs', Inr \<lparr>verifierAccepted = False,
           returnValue = ''relayWorker '' @
             signer_address (provider_getSigner g (relayWorker (relayData (relayRequest dreq)))) @
             '' does not have enough balance to cover the maximum possible gas for this transaction'',
           reverted = False\<rparr>)"
    by (simp add: validateAcceptDeployCall_def h io_bind_def io_return_def Let_def)
  then show "\<exists>verdict. validateAcceptDeployCall g dreq = (cs', Inr verdict) \<and>
         verdict = \<lparr>verifierAccepted = False,
           returnValue = ''relayWorker '' @
             signer_address (provider_getSigner g (relayWorker (relayData (relayRequest dreq)))) @
             '' does not have enough balance to cover the maximum possible gas for this transaction'',
           reverted = False\<rparr> \<and>
         getProperty (DeployVerdict_properties verdict) ''revertedInDestination'' = JSUndefined"
    by (simp add: getProperty_def DeployVerdict_properties_def)
  show "filter isSimulation (fst (validateAcceptDeployCall g dreq)) = []"
    using deploy_limit_calls [of g dreq] by (simp add: h r)
qed

theorem zero_budget_terminal_verdict_witness:
  "validateAcceptRelayCall (sampleGateway 21000 0 (Inr ()) (Inr True) ''2.0.1'')
     (sampleConstants 1) (sampleRequest 1) ''0xsig'' =
     ([EstimateGas (sampleTransaction 1), GetBalance ''0xworker''],
      Inr \<lparr>verifierAccepted = False,
           returnValue = ''relayWorker 0xworker does not have enough balance to cover the maximum possible gas for this transaction'',
           reverted = False, revertedInDestination = False\<rparr>)
   \<and> validateAcceptDeployCall (sampleGateway 21000 0 (Inr ()) (Inr True) ''2.0.1'')
       (sampleDeployRequest 1) =
     ([EstimateGasDeployCall ''0xhub'' ''0xworker'', GetBalance ''0xworker''],
      Inr \<lparr>verifierAccepted = False,
           returnValue = ''relayWorker 0xworker does not have enough balance to cover the maximum possible gas for this transaction'',
           reverted = False\<rparr>)"
proof -
  let ?g = "sampleGateway 21000 0 (Inr ()) (Inr True) ''2.0.1''"
  have r: "getMaxViewableRelayGasLimit ?g (sampleConstants 1) (sampleRequest 1) ''0xsig'' =
      ([EstimateGas (sampleTransaction 1), GetBalance ''0xworker''], Inr 0)"
    by (simp add: sample_relay_limit)
  have d: "getMaxViewableDeployGasLimit ?g (sampleDeployRequest 1) =
      ([EstimateGasDeployCall ''0xhub'' ''0xworker'', GetBalance ''0xworker''], Inr 0)"
    by (simp add: sample_deploy_limit)
  show ?thesis
    using zero_budget_terminal_verdict [of ?g "sampleConstants 1" "sampleRequest 1" "''0xsig''"
        "[EstimateGas (sampleTransaction 1), GetBalance ''0xworker'']" "sampleDeployRequest 1"
        "[EstimateGasDeployCall ''0xhub'' ''0xworker'', GetBalance ''0xworker'']"] r d
    by (auto simp: sample_defs)
qed

text \<open>
  C2. In a relay check with a gas budget that is not zero, a verifier simulation that
  throws gives the returned verdict \<open>verifierAccepted\<close> false, \<open>reverted\<close> false, with the
  thrown message at the end of the detail; a verifier simulation that passes followed by
  a hub simulation that throws gives the returned verdict \<open>verifierAccepted\<close> true,
  \<open>reverted\<close> true, again with the thrown message at the end of the detail. The check returns
  in both cases: its result is on the \<open>Inr\<close> side.
\<close>

theorem simulation_failures_become_verdicts:
  "getMaxViewableRelayGasLimit g k req sig = (cs, Inr limit) \<and> limit \<noteq> 0 \<longrightarrow>
     (relayVerifier_verifyRelayedCall g (provider_getSigner g (relayWorker (relayData req))) req sig
        = Inl e \<longrightarrow>
      validateAcceptRelayCall g k req sig =
        (cs @ [VerifyRelayedCall (provider_getSigner g (relayWorker (relayData req)))],
         Inr \<lparr>verifierAccepted = False,
              returnValue = ''view call to 'relayCall' reverted in verifier: '' @ message e,
              reverted = False, revertedInDestination = False\<rparr>))
   \<and> (relayVerifier_verifyRelayedCall g (provider_getSigner g (relayWorker (relayData req))) req sig
        = Inr () \<and>
      relayHub_relayCall g (provider_getSigner g (relayWorker (relayData req))) req sig
        (gasPrice (relayData req)) limit = Inl e \<longrightarrow>
      validateAcceptRelayCall g k req sig =
        (cs @ [VerifyRelayedCall (provider_getSigner g (relayWorker (relayData req))),
               RelayCall (provider_getSigner g (relayWorker (relayData req)))
                 (gasPrice (relayData req)) limit],
         Inr \<lparr>verifierAccepted = True,
              returnValue = ''view call to 'relayCall' reverted in client: '' @ message e,
              reverted = True, revertedInDestination = False\<rparr>))"
  by (simp add: validateAcceptRelayCall_def io_defs Let_def)

theorem simulation_failures_become_verdicts_witness:
  "snd (validateAcceptRelayCall
          (sampleGateway 21000 (10 ^ 30) (Inl (Error ''revert Not the owner'')) (Inr True) ''2.0.1'')
          (sampleConstants 1) (sampleRequest 1) ''0xsig'') =
     Inr \<lparr>verifierAccepted = False,
          returnValue = ''view call to 'relayCall' reverted in verifier: revert Not the owner'',
          reverted = False, revertedInDestination = False\<rparr>
   \<and> snd (validateAcceptRelayCall
          (sampleGateway 21000 (10 ^ 30) (Inr ()) (Inl (Error ''revert out of gas'')) ''2.0.1'')
          (sampleConstants 1) (sampleRequest 1) ''0xsig'') =
     Inr \<lparr>verifierAccepted = True,
          returnValue = ''view call to 'relayCall' reverted in client: revert out of gas'',
          reverted = True, revertedInDestination = False\<rparr>"
proof -
  let ?g1 = "sampleGateway 21000 (10 ^ 30) (Inl (Error ''revert Not the owner'')) (Inr True) ''2.0.1''"
  let ?g2 = "sampleGateway 21000 (10 ^ 30) (Inr ()) (Inl (Error ''revert out of gas'')) ''2.0.1''"
  let ?cs = "[EstimateGas (sampleTransaction 1), GetBalance ''0xworker'']"
  have l1: "getMaxViewableRelayGasLimit ?g1 (sampleConstants 1) (sampleRequest 1) ''0xsig'' =
      (?cs, Inr (21000 * 10 ^ 18)) \<and> (21000 * 10 ^ 18 :: int) \<noteq> 0"
    by (simp add: sample_relay_limit)
  have l2: "getMaxViewableRelayGasLimit ?g2 (sampleConstants 1) (sampleRequest 1) ''0xsig'' =
      (?cs, Inr (21000 * 10 ^ 18)) \<and> (21000 * 10 ^ 18 :: int) \<noteq> 0"
    by (simp add: sample_relay_limit)
  have v1: "relayVerifier_verifyRelayedCall ?g1
      (provider_getSigner ?g1 (relayWorker (relayData (sampleRequest 1)))) (sampleRequest 1) ''0xsig''
      = Inl (Error ''revert Not the owner'')"
    by (simp add: sample_defs)
  have v2: "relayVerifier_verifyRelayedCall ?g2
      (provider_getSigner ?g2 (relayWorker (relayData (sampleRequest 1)))) (sampleRequest 1) ''0xsig''
      = Inr () \<and>
    relayHub_relayCall ?g2 (provider_getSigner ?g2 (relayWorker (relayData (sampleRequest 1))))
      (sampleRequest 1) ''0xsig'' (gasPrice (relayData (sampleRequest 1))) (21000 * 10 ^ 18)
      = Inl (Error ''revert out of gas'')"
    by (simp add: sample_defs)
  have a: "snd (validateAcceptRelayCall ?g1 (sampleConstants 1) (sampleRequest 1) ''0xsig'') =
     Inr \<lparr>verifierAccepted = False,
          returnValue = ''view call to 'relayCall' reverted in verifier: revert Not the owner'',
          reverted = False, revertedInDestination = False\<rparr>"
    using simulation_failures_become_verdicts [of ?g1 "sampleConstants 1" "sampleRequest 1"
        "''0xsig''" ?cs "21000 * 10 ^ 18" "Error ''revert Not the owner''"] l1 v1
    by simp
  have b: "snd (validateAcceptRelayCall ?g2 (sampleConstants 1) (sampleRequest 1) ''0xsig'') =
     Inr \<lparr>verifierAccepted = True,
          returnValue = ''view call to 'relayCall' reverted in client: revert out of gas'',
          reverted = True, revertedInDestination = False\<rparr>"
    using simulation_failures_become_verdicts [of ?g2 "sampleConstants 1" "sampleRequest 1"
        "''0xsig''" ?cs "21000 * 10 ^ 18" "Error ''revert out of gas''"] l2 v2
    by simp
  show ?thesis
    using a b by simp
qed

text \<open>
  The relay limit at the gas price zero, for any gateway whose estimation and balance
  read answer: both calls are made and the division throws. The deploy limit at the gas
  price zero makes no call.
\<close>

lemma relay_limit_zero_price:
  "gasPrice (relayData req) = 0 \<Longrightarrow>
   estimateRelayTransactionMaxPossibleGas g k req sig = (cs, Inr estimatedGas) \<Longrightarrow>
   provider_getBalance g (relayWorker (relayData req)) = Inr balance \<Longrightarrow>
   getMaxViewableRelayGasLimit g k req sig =
     (cs @ [GetBalance (relayWorker (relayData req))], Inl (NumericFault ''division-by-zero''))"
  by (simp add: getMaxViewableRelayGasLimit_def getBalance_def io_defs BigNumber_div_def)

lemma deploy_limit_zero_price:
  "gasPrice (relayData (relayRequest dreq)) = 0 \<Longrightarrow>
   getMaxViewableDeployGasLimit g dreq = ([], Inr 0)"
  by (simp add: getMaxViewableDeployGasLimit_def io_defs)

text \<open>
  C3. With a gas price of zero, the deploy limit is 0 and no call is made. The relay
  limit is not: the estimation and the balance read are both made, and the division of
  the balance by the zero price throws.
\<close>

theorem zero_gas_price_relay_limit_estimates_and_throws:
  "getMaxViewableRelayGasLimit (sampleGateway 21000 (10 ^ 30) (Inr ()) (Inr True) ''2.0.1'')
     (sampleConstants 1) (sampleRequest 0) ''0xsig'' =
     ([EstimateGas (sampleTransaction 0), GetBalance ''0xworker''],
      Inl (NumericFault ''division-by-zero''))
   \<and> getMaxViewableDeployGasLimit (sampleGateway 21000 (10 ^ 30) (Inr ()) (Inr True) ''2.0.1'')
       (sampleDeployRequest 0) = ([], Inr 0)"
  by (simp add: getMaxViewableRelayGasLimit_def getMaxViewableDeployGasLimit_def getBalance_def
        sample_relay_estimate io_defs sample_request_fields BigNumber_div_def)
     (simp add: sample_defs io_defs)

text \<open>
  C4. With a positive gas price and a balance that is not negative, the limit is the
  estimated gas when the balance divided by the price, rounded down, is at least the
  estimate (equality included), and 0 otherwise; it is never strictly between 0 and the
  estimate. This holds for the relay limit and for the deploy limit.
\<close>

theorem affordable_estimate_or_zero:
  "0 < gasPrice (relayData req) \<and> 0 \<le> balance \<and>
   provider_getBalance g (relayWorker (relayData req)) = Inr balance \<longrightarrow>
     (estimateRelayTransactionMaxPossibleGas g k req sig = (cs, Inr estimatedGas) \<longrightarrow>
        (\<exists>r. snd (getMaxViewableRelayGasLimit g k req sig) = Inr r \<and>
             r = (if balance div gasPrice (relayData req) \<ge> estimatedGas then estimatedGas else 0) \<and>
             \<not> (0 < r \<and> r < estimatedGas)))
   \<and> (relayRequest dreq = req \<and>
        walletFactoryEstimateGasOfDeployCall g dreq = (cs', Inr estimatedGas) \<longrightarrow>
        (\<exists>r. snd (getMaxViewableDeployGasLimit g dreq) = Inr r \<and>
             r = (if balance div gasPrice (relayData req) \<ge> estimatedGas then estimatedGas else 0) \<and>
             \<not> (0 < r \<and> r < estimatedGas)))"
proof (intro impI conjI)
  assume h: "0 < gasPrice (relayData req) \<and> 0 \<le> balance \<and>
    provider_getBalance g (relayWorker (relayData req)) = Inr balance"
  then have d: "BigNumber_div balance (gasPrice (relayData req)) =
      Inr (balance div gasPrice (relayData req))"
    by (simp add: BigNumber_div_floor)
  {
    assume e: "estimateRelayTransactionMaxPossibleGas g k req sig = (cs, Inr estimatedGas)"
    have "snd (getMaxViewableRelayGasLimit g k req sig) =
          Inr (if balance div gasPrice (relayData req) \<ge> estimatedGas then estimatedGas else 0)"
      using h by (simp add: getMaxViewableRelayGasLimit_def getBalance_def io_defs e d)
    then show "\<exists>r. snd (getMaxViewableRelayGasLimit g k req sig) = Inr r \<and>
             r = (if balance div gasPrice (relayData req) \<ge> estimatedGas then estimatedGas else 0) \<and>
             \<not> (0 < r \<and> r < estimatedGas)"
      by simp
  }
  {
    assume e: "relayRequest dreq = req \<and>
      walletFactoryEstimateGasOfDeployCall g dreq = (cs', Inr estimatedGas)"
    have "snd (getMaxViewableDeployGasLimit g dreq) =
          Inr (if balance div gasPrice (relayData req) \<ge> estimatedGas then estimatedGas else 0)"
      using h e d by (simp add: getMaxViewableDeployGasLimit_def getBalance_def io_defs Let_def)
    then show "\<exists>r. snd (getMaxViewableDeployGasLimit g dreq) = Inr r \<and>
             r = (if balance div gasPrice (relayData req) \<ge> estimatedGas then estimatedGas else 0) \<and>
             \<not> (0 < r \<and> r < estimatedGas)"
      by simp
  }
qed

text \<open>
  The witness is the boundary: a balance of 42001 at the price 2 pays for 21000 units of
  gas exactly, the deploy estimate.
\<close>

theorem affordable_estimate_or_zero_witness:
  "snd (getMaxViewableDeployGasLimit (sampleGateway 21000 42001 (Inr ()) (Inr True) ''2.0.1'')
     (sampleDeployRequest 2)) = Inr 21000
   \<and> snd (getMaxViewableRelayGasLimit (sampleGateway 21000 42001 (Inr ()) (Inr True) ''2.0.1'')
     (sampleConstants 1) (sampleRequest 2) ''0xsig'') = Inr 0"
proof -
  let ?g = "sampleGateway 21000 42001 (Inr ()) (Inr True) ''2.0.1''"
  have h: "0 < gasPrice (relayData (sampleRequest 2)) \<and> (0::int) \<le> 42001 \<and>
      provider_getBalance ?g (relayWorker (relayData (sampleRequest 2))) = Inr 42001"
    by (simp add: sample_request_fields)
  have r: "estimateRelayTransactionMaxPossibleGas ?g (sampleConstants 1) (sampleRequest 2) ''0xsig''
      = ([EstimateGas (sampleTransaction 2)], Inr (21000 * 10 ^ 18))"
    by (simp add: sample_relay_estimate)
  have d: "relayRequest (sampleDeployRequest 2) = sampleRequest 2 \<and>
      walletFactoryEstimateGasOfDeployCall ?g (sampleDeployRequest 2) =
        ([EstimateGasDeployCall ''0xhub'' ''0xworker''], Inr 21000)"
    by (simp add: walletFactoryEstimateGasOfDeployCall_def io_defs sample_defs AddressZero_def)
  have a: "snd (getMaxViewableDeployGasLimit ?g (sampleDeployRequest 2)) = Inr 21000"
    using affordable_estimate_or_zero [of "sampleRequest 2" 42001 ?g "sampleConstants 1" "''0xsig''"
        "[EstimateGas (sampleTransaction 2)]" 21000 "sampleDeployRequest 2"
        "[EstimateGasDeployCall ''0xhub'' ''0xworker'']"] h d
    by (simp add: sample_request_fields)
  have b: "snd (getMaxViewableRelayGasLimit ?g (sampleConstants 1) (sampleRequest 2) ''0xsig'') = Inr 0"
    using affordable_estimate_or_zero [of "sampleRequest 2" 42001 ?g "sampleConstants 1" "''0xsig''"
        "[EstimateGas (sampleTransaction 2)]" "21000 * 10 ^ 18" "sampleDeployRequest 2"
        "[EstimateGasDeployCall ''0xhub'' ''0xworker'']"] h r
    by (simp add: sample_request_fields)
  show ?thesis
    using a b by simp
qed

text \<open>
  Whatever transaction the hub call resolves to, the verdict of the relay check says that
  the destination call did not revert.
\<close>

lemma relay_verdict_destination_flag:
  "getMaxViewableRelayGasLimit g k req sig = (cs, Inr limit) \<Longrightarrow> limit \<noteq> 0 \<Longrightarrow>
   relayVerifier_verifyRelayedCall g (provider_getSigner g (relayWorker (relayData req))) req sig
     = Inr () \<Longrightarrow>
   relayHub_relayCall g (provider_getSigner g (relayWorker (relayData req))) req sig
     (gasPrice (relayData req)) limit = Inr res \<Longrightarrow>
   snd (validateAcceptRelayCall g k req sig) =
     Inr \<lparr>verifierAccepted = True, returnValue = [], reverted = False,
          revertedInDestination = False\<rparr>"
  by (simp add: validateAcceptRelayCall_def io_defs Let_def isTruthy_def)

text \<open>
  C5. The relay check does not report a failed destination call. With a sufficient
  balance, a verifier that passes and a hub whose \<open>relayCall\<close> returns
  \<open>destinationCallSuccess\<close> false, the check calls the verifier and the hub and returns
  \<open>verifierAccepted\<close> true, \<open>reverted\<close> false and \<open>revertedInDestination\<close> false: what it
  negates is the transaction the call resolved to.
\<close>

theorem destination_revert_never_reported:
  "relayHub_callStatic_relayCall
     (sampleGateway 21000 (10 ^ 30) (Inr ()) (Inr False) ''2.0.1'')
     \<lparr>signer_address = ''0xworker''\<rparr> (sampleRequest 1) ''0xsig'' 1 (21000 * 10 ^ 18) = Inr False
   \<and> validateAcceptRelayCall (sampleGateway 21000 (10 ^ 30) (Inr ()) (Inr False) ''2.0.1'')
       (sampleConstants 1) (sampleRequest 1) ''0xsig'' =
     ([EstimateGas (sampleTransaction 1), GetBalance ''0xworker'',
       VerifyRelayedCall \<lparr>signer_address = ''0xworker''\<rparr>,
       RelayCall \<lparr>signer_address = ''0xworker''\<rparr> 1 (21000 * 10 ^ 18)],
      Inr \<lparr>verifierAccepted = True, returnValue = [], reverted = False,
           revertedInDestination = False\<rparr>)"
proof -
  let ?g = "sampleGateway 21000 (10 ^ 30) (Inr ()) (Inr False) ''2.0.1''"
  have l: "getMaxViewableRelayGasLimit ?g (sampleConstants 1) (sampleRequest 1) ''0xsig'' =
      ([EstimateGas (sampleTransaction 1), GetBalance ''0xworker''], Inr (21000 * 10 ^ 18))"
    by (simp add: sample_relay_limit)
  have c: "relayHub_callStatic_relayCall ?g \<lparr>signer_address = ''0xworker''\<rparr> (sampleRequest 1)
      ''0xsig'' 1 (21000 * 10 ^ 18) = Inr False"
    by (simp add: sample_defs)
  have v: "validateAcceptRelayCall ?g (sampleConstants 1) (sampleRequest 1) ''0xsig'' =
     ([EstimateGas (sampleTransaction 1), GetBalance ''0xworker'',
       VerifyRelayedCall \<lparr>signer_address = ''0xworker''\<rparr>,
       RelayCall \<lparr>signer_address = ''0xworker''\<rparr> 1 (21000 * 10 ^ 18)],
      Inr \<lparr>verifierAccepted = True, returnValue = [], reverted = False,
           revertedInDestination = False\<rparr>)"
    using l by (simp add: validateAcceptRelayCall_def io_defs Let_def isTruthy_def sample_defs)
  show ?thesis
    using c v by simp
qed

text \<open>
  The relay estimation for any gateway: a factor with a fractional part makes it throw,
  and the factor 1 gives the raw estimate scaled by 10^18.
\<close>

lemma relay_estimate_fractional_factor:
  "frac (ESTIMATED_GAS_CORRECTION_FACTOR k) \<noteq> 0 \<Longrightarrow>
   provider_estimateGas g
     \<lparr>tx_from = relayWorker (relayData req), tx_to = relayHub (request req),
      tx_data = relayHub_encodeFunctionData g req sig,
      tx_gasPrice = PriceOfRequest (gasPrice (relayData req))\<rparr> = Inr raw \<Longrightarrow>
   snd (estimateRelayTransactionMaxPossibleGas g k req sig) = Inl (NumericFault ''underflow'')"
  by (simp add: estimateRelayTransactionMaxPossibleGas_def io_defs BigNumber_mul_def
        BigNumber_from_number_def Let_def)

lemma relay_estimate_neutral_factor:
  "ESTIMATED_GAS_CORRECTION_FACTOR k = 1 \<Longrightarrow> 0 \<le> raw \<Longrightarrow>
   provider_estimateGas g
     \<lparr>tx_from = relayWorker (relayData req), tx_to = relayHub (request req),
      tx_data = relayHub_encodeFunctionData g req sig,
      tx_gasPrice = PriceOfRequest (gasPrice (relayData req))\<rparr> = Inr raw \<Longrightarrow>
   snd (estimateRelayTransactionMaxPossibleGas g k req sig) = Inr (raw * 10 ^ 18)"
  by (simp add: estimateRelayTransactionMaxPossibleGas_def io_defs number_defs Let_def)

text \<open>
  C6. The relay estimation does not return the raw estimate times the factor, rounded
  up. With the factor 1 and a raw estimate of 100000 it returns 100000 * 10^18: the
  FixedNumber handed to \<open>BigNumber.from\<close> is read through its hexadecimal form, which is
  scaled by 10^18. With the factor 1.1 the multiplication throws, in the relay estimation
  and in the destination call estimation with the cushion: a BigNumber cannot be made of
  1.1.
\<close>

theorem correction_factor_scales_or_throws:
  "estimateRelayTransactionMaxPossibleGas
     (sampleGateway 100000 (10 ^ 30) (Inr ()) (Inr True) ''2.0.1'') (sampleConstants 1)
     (sampleRequest 1) ''0xsig'' =
     ([EstimateGas (sampleTransaction 1)], Inr (100000 * 10 ^ 18))
   \<and> estimateRelayTransactionMaxPossibleGas
     (sampleGateway 100000 (10 ^ 30) (Inr ()) (Inr True) ''2.0.1'') (sampleConstants (11 / 10))
     (sampleRequest 1) ''0xsig'' =
     ([EstimateGas (sampleTransaction 1)], Inl (NumericFault ''underflow''))
   \<and> snd (estimateDestinationContractCallGas
     (sampleGateway 100000 (10 ^ 30) (Inr ()) (Inr True) ''2.0.1'') (sampleConstants (11 / 10))
     sampleDetails True) = Inl (NumericFault ''underflow'')"
  by (simp add: estimateRelayTransactionMaxPossibleGas_def estimateDestinationContractCallGas_def
        io_defs sample_defs number_defs Let_def frac_11_10)

text \<open>
  C7. Without the cushion, the destination call estimation returns the raw estimate
  minus the internal transaction correction when the raw estimate is strictly greater
  than the correction, and the raw estimate otherwise. When the raw estimate and the
  correction are not negative, the result is not negative and not above the raw
  estimate.
\<close>

theorem internal_call_correction:
  "provider_estimateGas g
     \<lparr>tx_from = p_from details, tx_to = p_to details, tx_data = p_data details,
      tx_gasPrice = PriceOfDetails (p_gasPrice details)\<rparr> = Inr raw \<longrightarrow>
   (\<exists>r. snd (estimateDestinationContractCallGas g k details False) = Inr r \<and>
        r = (if raw > INTERNAL_TRANSACTION_ESTIMATE_CORRECTION k
             then raw - INTERNAL_TRANSACTION_ESTIMATE_CORRECTION k else raw) \<and>
        (0 \<le> raw \<and> 0 \<le> INTERNAL_TRANSACTION_ESTIMATE_CORRECTION k \<longrightarrow> 0 \<le> r \<and> r \<le> raw))"
  by (auto simp: estimateDestinationContractCallGas_def io_defs Let_def)

theorem internal_call_correction_witness:
  "snd (estimateDestinationContractCallGas
          (sampleGateway 100000 0 (Inr ()) (Inr True) ''2.0.1'') (sampleConstants 1)
          sampleDetails False) = Inr 80000
   \<and> snd (estimateDestinationContractCallGas
          (sampleGateway 20000 0 (Inr ()) (Inr True) ''2.0.1'') (sampleConstants 1)
          sampleDetails False) = Inr 20000"
proof -
  have e: "provider_estimateGas (sampleGateway raw 0 (Inr ()) (Inr True) ''2.0.1'')
     \<lparr>tx_from = p_from sampleDetails, tx_to = p_to sampleDetails, tx_data = p_data sampleDetails,
      tx_gasPrice = PriceOfDetails (p_gasPrice sampleDetails)\<rparr> = Inr raw" for raw
    by (simp add: sample_defs)
  have c: "INTERNAL_TRANSACTION_ESTIMATE_CORRECTION (sampleConstants 1) = 20000"
    by (simp add: sample_defs)
  show ?thesis
    using internal_call_correction [of "sampleGateway 100000 0 (Inr ()) (Inr True) ''2.0.1''"
        sampleDetails 100000 "sampleConstants 1"]
      internal_call_correction [of "sampleGateway 20000 0 (Inr ()) (Inr True) ''2.0.1''"
        sampleDetails 20000 "sampleConstants 1"]
      e [of 100000] e [of 20000]
    by (simp add: c)
qed

section \<open>The version gate\<close>

lemma SemVer_new_bounds:
  "SemVer_new s = Inr v \<Longrightarrow>
     major v \<le> MAX_SAFE_INTEGER \<and> minor v \<le> MAX_SAFE_INTEGER \<and> patch v \<le> MAX_SAFE_INTEGER"
  by (auto simp: SemVer_new_def split: if_splits option.splits prod.splits)

lemma SemVer_new_empty: "SemVer_new [] = Inl (TypeError ''Invalid Version: '')"
  by (simp add: SemVer_new_def matchFull_def trim_def MAX_LENGTH_def)

lemma compareIdentifiers_same_number: "compareIdentifiers (Num x) (Num x) = 0"
  by (simp add: compareIdentifiers_def)

lemma compareIdentifiers_zero: "compareIdentifiers a (Num 0) \<ge> 0"
  by (cases a) (auto simp: compareIdentifiers_def Let_def)

lemma comparePreLoop_zero: "comparePreLoop (a # as) [Num 0] \<ge> 0"
  by (cases as) (simp_all add: compareIdentifiers_zero)

text \<open>The prerelease \<open>-0\<close> is the lowest: no prerelease of the same numbers is below it.\<close>

lemma compare_same_main_zero:
  assumes "prerelease r \<noteq> []" "major r = major u" "minor r = minor u" "patch r = patch u"
    "prerelease u = [Num 0]"
  shows "compare r u \<ge> 0"
proof -
  obtain a as where p: "prerelease r = a # as"
    using assms(1) by (cases "prerelease r") auto
  have m: "compareMain r u = 0"
    using assms by (simp add: compareMain_def compareIdentifiers_same_number)
  have "comparePre r u = comparePreLoop (a # as) [Num 0]"
    using assms p by (simp add: comparePre_def)
  then have "comparePre r u \<ge> 0"
    using comparePreLoop_zero [of a as] by simp
  then show ?thesis
    using m by (simp add: compare_def)
qed

lemma compare_build: "compare r (own\<lparr>build := b\<rparr>) = compare r own"
  by (simp add: compare_def compareMain_def comparePre_def sameVersion_def Let_def)

lemma compareIdentifiers_Num_zero: "compareIdentifiers (Num x) (Num 0) = (if x = 0 then 0 else 1)"
  by (simp add: compareIdentifiers_def)

lemma compare_zero_version:
  assumes "prerelease r = []" "major own = 0" "minor own = 0" "patch own = 0" "prerelease own = []"
  shows "compare r own \<ge> 0"
  using assms
  by (simp add: compare_def compareMain_def comparePre_def compareIdentifiers_Num_zero Let_def)

lemma cmp_gte: "cmp a ''>='' b = Inr (compare a b \<ge> 0)"
  by (simp add: cmp_def)

lemma cmp_lt: "cmp a ''<'' b = Inr (compare a b < 0)"
  by (simp add: cmp_def)

text \<open>
  What \<open>satisfies\<close> computes on the caret of a valid version: it never throws, refuses a
  text that is not a version, and accepts a version exactly when both comparators of the
  range could be built, the version is not below the lower one and below the upper one,
  and its prerelease, if it has one, is allowed by the lower comparator.
\<close>

lemma satisfies_caret:
  assumes own: "SemVer_new cv = Inr own"
  shows "satisfies x (CHR ''^'' # cv) =
     Inr (case SemVer_new x of
            Inl _ \<Rightarrow> False
          | Inr remote \<Rightarrow>
           (major (snd (replaceCaret own)) \<le> MAX_SAFE_INTEGER \<and>
            minor (snd (replaceCaret own)) \<le> MAX_SAFE_INTEGER \<and>
            patch (snd (replaceCaret own)) \<le> MAX_SAFE_INTEGER \<and>
            compare remote own \<ge> 0 \<and>
            compare remote (snd (replaceCaret own)) < 0 \<and>
            (if prerelease remote \<noteq> []
             then prerelease own \<noteq> [] \<and> major remote = major own \<and>
                  minor remote = minor own \<and> patch remote = patch own
             else True)))"
proof (cases "SemVer_new x")
  case (Inl e)
  then show ?thesis
    by (simp add: satisfies_def Range_test_def split: sum.splits)
next
  case (Inr r)
  then have ne: "x \<noteq> []"
    using SemVer_new_empty by auto
  let ?lo = "fst (replaceCaret own)" and ?up = "snd (replaceCaret own)"
  let ?w = "major ?up \<le> MAX_SAFE_INTEGER \<and> minor ?up \<le> MAX_SAFE_INTEGER \<and>
      patch ?up \<le> MAX_SAFE_INTEGER \<and> compare r own \<ge> 0 \<and> compare r ?up < 0 \<and>
      (if prerelease r \<noteq> []
       then prerelease own \<noteq> [] \<and> major r = major own \<and> minor r = minor own \<and>
            patch r = patch own
       else True)"
  have lo_ok: "Comparator_new ''>='' ?lo = Inr \<lparr>operator = ''>='', semver = ?lo\<rparr>"
    using SemVer_new_bounds [OF own] by (simp add: Comparator_new_def replaceCaret_def)
  have up_pre: "prerelease ?up = [Num 0]"
    by (simp add: replaceCaret_def)
  show ?thesis
  proof (cases "major ?up \<le> MAX_SAFE_INTEGER \<and> minor ?up \<le> MAX_SAFE_INTEGER \<and>
      patch ?up \<le> MAX_SAFE_INTEGER")
    case False
    then have "\<exists>e. Comparator_new ''<'' ?up = Inl e"
      by (auto simp: Comparator_new_def)
    then obtain e where "Comparator_new ''<'' ?up = Inl e" ..
    then have "satisfies x (CHR ''^'' # cv) = Inr False"
      by (simp add: satisfies_def Range_new_def own lo_ok)
    moreover have "\<not> ?w"
      using False by auto
    ultimately show ?thesis
      by (simp add: Inr)
  next
    case True
    then have up_ok: "Comparator_new ''<'' ?up = Inr \<lparr>operator = ''<'', semver = ?up\<rparr>"
      by (simp add: Comparator_new_def)
    have lo_cmp: "compare r ?lo = compare r own"
      by (simp add: replaceCaret_def compare_build)
    have blocked: "prerelease r \<noteq> [] \<Longrightarrow> compare r ?up < 0 \<Longrightarrow>
        \<not> (major ?up = major r \<and> minor ?up = minor r \<and> patch ?up = patch r)"
      using compare_same_main_zero [of r ?up] up_pre by fastforce
    show ?thesis
    proof (cases "major own = 0 \<and> minor own = 0 \<and> patch own = 0 \<and> prerelease own = []")
      case zero: True
      then have rng: "Range_new (CHR ''^'' # cv) = Inr [[\<lparr>operator = ''<'', semver = ?up\<rparr>]]"
        by (simp add: Range_new_def own lo_ok up_ok)
      have "satisfies x (CHR ''^'' # cv) =
          Inr (compare r ?up < 0 \<and> prerelease r = [])"
        using blocked
        by (auto simp: satisfies_def rng Range_test_def ne Inr testSet_def Comparator_test_def
            cmp_lt allowsPrerelease_def up_pre)
      moreover have "?w = (compare r ?up < 0 \<and> prerelease r = [])"
        using True zero compare_zero_version [of r own]
        by auto
      ultimately show ?thesis
        by (simp add: Inr)
    next
      case nonzero: False
      then have rng: "Range_new (CHR ''^'' # cv) =
          Inr [[\<lparr>operator = ''>='', semver = ?lo\<rparr>, \<lparr>operator = ''<'', semver = ?up\<rparr>]]"
        by (simp add: Range_new_def own lo_ok up_ok)
      have lo_fields: "prerelease ?lo = prerelease own" "major ?lo = major own"
        "minor ?lo = minor own" "patch ?lo = patch own"
        by (simp_all add: replaceCaret_def)
      have "satisfies x (CHR ''^'' # cv) = Inr (?w)"
        using blocked True
        by (auto simp: satisfies_def rng Range_test_def ne Inr testSet_def Comparator_test_def
            cmp_lt cmp_gte allowsPrerelease_def up_pre lo_cmp lo_fields)
      then show ?thesis
        by (simp add: Inr)
    qed
  qed
qed

subsection \<open>The library's order and the precedence of semantic versioning\<close>





















subsection \<open>The checker\<close>

lemma VersionsManager_new_valid:
  "VersionsManager_new cv = Inr this \<Longrightarrow>
     componentVersion this = cv \<and> (\<exists>own. SemVer_new cv = Inr own)"
  by (auto simp: VersionsManager_new_def valid_def parse_def split: if_splits sum.splits)



text \<open>
  What the checker computes, in the words of the library: the comparators of the caret
  range, on the remote text with its first underscore replaced.
\<close>

lemma isMinorSameOrNewer_comparators:
  assumes "componentVersion this = cv" "SemVer_new cv = Inr own"
  shows "isMinorSameOrNewer this version =
     Inr (case SemVer_new (replace CHR ''_'' CHR ''-'' version) of
            Inl _ \<Rightarrow> False
          | Inr remote \<Rightarrow>
           (major (snd (replaceCaret own)) \<le> MAX_SAFE_INTEGER \<and>
            minor (snd (replaceCaret own)) \<le> MAX_SAFE_INTEGER \<and>
            patch (snd (replaceCaret own)) \<le> MAX_SAFE_INTEGER \<and>
            compare remote own \<ge> 0 \<and>
            compare remote (snd (replaceCaret own)) < 0 \<and>
            (if prerelease remote \<noteq> []
             then prerelease own \<noteq> [] \<and> major remote = major own \<and>
                  minor remote = minor own \<and> patch remote = patch own
             else True)))"
  by (simp add: isMinorSameOrNewer_def assms(1) satisfies_caret [OF assms(2)])


text \<open>
  The constructor keeps a prerelease identifier of digits as text exactly when its number
  is \<open>MAX_SAFE_INTEGER\<close> or more.
\<close>

lemma numberify_safe:
  "safeIdentifier (numberify s) \<longleftrightarrow> (allDigits s \<longrightarrow> digitsValue s < MAX_SAFE_INTEGER)"
  by (simp add: numberify_def allDigits_def Let_def)

lemma sample_versions:
  "SemVer_new ''2.0.1'' =
     Inr \<lparr>major = 2, minor = 0, patch = 1, prerelease = [], build = []\<rparr>"
  "SemVer_new ''1.0.0'' =
     Inr \<lparr>major = 1, minor = 0, patch = 0, prerelease = [], build = []\<rparr>"
  "SemVer_new ''2.0.2+a-b'' =
     Inr \<lparr>major = 2, minor = 0, patch = 2, prerelease = [], build = [''a-b'']\<rparr>"
  "SemVer_new ''2.0.2+a-b-c'' =
     Inr \<lparr>major = 2, minor = 0, patch = 2, prerelease = [], build = [''a-b-c'']\<rparr>"
  "SemVer_new ''2.0.2+a-b_c'' = Inl (TypeError ''Invalid Version: 2.0.2+a-b_c'')"
  "SemVer_new ''not-a_version'' = Inl (TypeError ''Invalid Version: not-a_version'')"
  by (simp_all add: parse_defs)



lemma sample_manager:
  "VersionsManager_new ''2.0.1'' = Inr \<lparr>componentVersion = ''2.0.1''\<rparr>"
  by (simp add: VersionsManager_new_def valid_def parse_def sample_versions)
     (simp add: parse_defs)


text \<open>An own version with a space before it is refused: \<open>valid\<close> does not trim.\<close>

lemma padded_version_refused:
  "VersionsManager_new '' 2.0.1'' = Inl (Error ''Component version is not valid'')"
  by (simp add: VersionsManager_new_def valid_def parse_def)
     (simp add: parse_defs)







subsection \<open>The single instance\<close>

text \<open>
  A \<open>getInstance\<close> that fails after the instance was created leaves the static field set,
  and the next \<open>getInstance\<close> returns that instance.
\<close>

lemma getInstance_keeps_created_instance:
  "getInstance g cfg None = (Some created, Inl e) \<Longrightarrow>
   getInstance g cfg (Some created) = (Some created, Inr created)"
  by (simp add: getInstance_def)

lemma sample_hub_refused:
  "isMinorSameOrNewer \<lparr>componentVersion = ''2.0.1''\<rparr> ''1.0.0'' = Inr False"
  by (simp add: isMinorSameOrNewer_def satisfies_caret [OF sample_versions(1)] sample_versions
        replaceCaret_def MAX_SAFE_INTEGER_def order_defs)

text \<open>
  C9. With a hub of version \<open>1.0.0\<close>, the first \<open>getInstance\<close> throws, and leaves the
  static field set to the interactor it created; a second \<open>getInstance\<close> finds the field
  set and returns that interactor, without reading or validating the hub's version.
\<close>

theorem getInstance_after_failed_validation:
  "getInstance (sampleGateway 21000 0 (Inr ()) (Inr True) ''1.0.0'') sampleConfig None =
     (Some \<lparr>versionManager = \<lparr>componentVersion = ''2.0.1''\<rparr>, config = sampleConfig\<rparr>,
      Inl (Error
        ''Provided Hub version(1.0.0) is not supported by the current interactor(2.0.1)''))
   \<and> getInstance (sampleGateway 21000 0 (Inr ()) (Inr True) ''1.0.0'') sampleConfig
       (Some \<lparr>versionManager = \<lparr>componentVersion = ''2.0.1''\<rparr>, config = sampleConfig\<rparr>) =
     (Some \<lparr>versionManager = \<lparr>componentVersion = ''2.0.1''\<rparr>, config = sampleConfig\<rparr>,
      Inr \<lparr>versionManager = \<lparr>componentVersion = ''2.0.1''\<rparr>, config = sampleConfig\<rparr>)"
  by (simp add: getInstance_def ContractInteractor_new_def VERSION_def sample_manager
        validateVersion_def sample_hub_refused sampleGateway_def)

text \<open>
  C10. For a checker constructed with a valid own version and any remote text,
  \<open>isMinorSameOrNewer\<close> returns a boolean: every exception of the version and range
  constructors is caught inside \<open>satisfies\<close>, and the comparators of a caret range have
  operators that \<open>cmp\<close> knows. When the remote text, after the replacement of its first
  underscore, is not a version, the answer is false.
\<close>

theorem isMinorSameOrNewer_never_throws:
  "VersionsManager_new cv = Inr this \<longrightarrow>
     (\<exists>b. isMinorSameOrNewer this version = Inr b)
     \<and> ((\<exists>e. SemVer_new (replace CHR ''_'' CHR ''-'' version) = Inl e) \<longrightarrow>
          isMinorSameOrNewer this version = Inr False)"
proof (intro impI conjI)
  assume c: "VersionsManager_new cv = Inr this"
  then obtain own where cv: "componentVersion this = cv" and own: "SemVer_new cv = Inr own"
    using VersionsManager_new_valid by blast
  note s = isMinorSameOrNewer_comparators [OF cv own, of version]
  then show "\<exists>b. isMinorSameOrNewer this version = Inr b"
    by blast
  assume "\<exists>e. SemVer_new (replace CHR ''_'' CHR ''-'' version) = Inl e"
  then show "isMinorSameOrNewer this version = Inr False"
    using s by auto
qed

theorem isMinorSameOrNewer_never_throws_witness:
  "isMinorSameOrNewer \<lparr>componentVersion = ''2.0.1''\<rparr> ''not_a_version'' = Inr False
   \<and> isMinorSameOrNewer \<lparr>componentVersion = ''2.0.1''\<rparr> [] = Inr False"
proof -
  have a: "\<exists>e. SemVer_new (replace CHR ''_'' CHR ''-'' ''not_a_version'') = Inl e"
    by (simp add: sample_versions)
  have b: "\<exists>e. SemVer_new (replace CHR ''_'' CHR ''-'' []) = Inl e"
    by (simp add: SemVer_new_empty)
  show ?thesis
    using isMinorSameOrNewer_never_throws [of "''2.0.1''" "\<lparr>componentVersion = ''2.0.1''\<rparr>"
        "''not_a_version''"]
      isMinorSameOrNewer_never_throws [of "''2.0.1''" "\<lparr>componentVersion = ''2.0.1''\<rparr>" "[]"]
      sample_manager a b
    by simp
qed

end
